theory Spec2Isabelle
  imports Main "HOL-Library.Sublist" "HOL-Library.Word"
begin

section \<open>Byte-slice primitives\<close>

text \<open>
  Go byte slices and strings are modelled by their contents, as lists of characters.
  A nil slice and an empty slice both have length 0 and are the empty list.
  The index functions of the packages \<^verbatim>\<open>bytes\<close> and \<^verbatim>\<open>strings\<close> return \<^verbatim>\<open>int\<close>,
  with \<open>-1\<close> for "not present".
\<close>

type_synonym bytes = string

text \<open>\<^verbatim>\<open>bytes.IndexByte\<close>: the index of the first instance of \<open>c\<close> in \<open>s\<close>, or \<open>-1\<close>.\<close>

definition IndexByte :: "bytes \<Rightarrow> char \<Rightarrow> int" where
  "IndexByte s c =
     (if c \<in> set s then int (length (takeWhile (\<lambda>x. x \<noteq> c) s)) else - 1)"

text \<open>\<^verbatim>\<open>strings.LastIndexByte\<close>: the index of the last instance of \<open>c\<close> in \<open>s\<close>, or \<open>-1\<close>.\<close>

definition LastIndexByte :: "string \<Rightarrow> char \<Rightarrow> int" where
  "LastIndexByte s c =
     (if c \<in> set s
      then int (length s) - 1 - int (length (takeWhile (\<lambda>x. x \<noteq> c) (rev s)))
      else - 1)"

text \<open>\<^verbatim>\<open>bytes.Index\<close>: the index of the first instance of \<open>sep\<close> in \<open>s\<close>, or \<open>-1\<close>.\<close>

fun Index :: "bytes \<Rightarrow> bytes \<Rightarrow> int" where
  "Index [] sep = (if sep = [] then 0 else - 1)"
| "Index (x # xs) sep =
     (if prefix sep (x # xs) then 0
      else (let r = Index xs sep in if r < 0 then - 1 else r + 1))"

text \<open>\<^verbatim>\<open>bytes.Replace(s, old, new, 1)\<close>: a copy of \<open>s\<close> with the first instance of
  \<open>old\<close> replaced by \<open>new\<close>; a copy of \<open>s\<close> when \<open>old\<close> does not occur.\<close>

definition ReplaceFirst :: "bytes \<Rightarrow> bytes \<Rightarrow> bytes \<Rightarrow> bytes" where
  "ReplaceFirst s old new =
     (let i = Index s old
      in if i < 0 then s else take (nat i) s @ new @ drop (nat i + length old) s)"

section \<open>Errors\<close>

datatype error =
    AddrError string string  \<comment> \<open>\<^verbatim>\<open>net.AddrError{Err, Addr}\<close>\<close>
  | ErrDialTimeout
  | errNoDNSEntries
  | OtherError string        \<comment> \<open>any other error value of the runtime or the network\<close>

section \<open>net.SplitHostPort\<close>

text \<open>
  \<^verbatim>\<open>net.SplitHostPort\<close> belongs to Go's standard library, not to the repository. It is
  transcribed here from the library's \<^verbatim>\<open>net/ipsock.go\<close>, branch by branch, because
  \<^verbatim>\<open>ParseHostWithPort\<close> depends on which inputs it rejects.
\<close>

definition addrErr :: "string \<Rightarrow> string \<Rightarrow> error + (string \<times> string)" where
  "addrErr addr why = Inl (AddrError why addr)"

definition SplitHostPort :: "string \<Rightarrow> error + (string \<times> string)" where
  "SplitHostPort hostport =
     (let i = LastIndexByte hostport CHR '':''
      in if i < 0 then addrErr hostport ''missing port in address''
      else if hd hostport = CHR ''[''
      then
        (let end = IndexByte hostport CHR '']''
         in if end < 0 then addrErr hostport ''missing ']' in address''
         else if end + 1 = int (length hostport)
           then addrErr hostport ''missing port in address''
         else if end + 1 = i
           then
             (if IndexByte (drop 1 hostport) CHR ''['' \<ge> 0
                then addrErr hostport ''unexpected '[' in address''
              else if IndexByte (drop (nat (end + 1)) hostport) CHR '']'' \<ge> 0
                then addrErr hostport ''unexpected ']' in address''
              else Inr (take (nat end - 1) (drop 1 hostport), drop (nat i + 1) hostport))
         else if hostport ! nat (end + 1) = CHR '':''
           then addrErr hostport ''too many colons in address''
         else addrErr hostport ''missing port in address'')
      else
        (let host = take (nat i) hostport
         in if IndexByte host CHR '':'' \<ge> 0
              then addrErr hostport ''too many colons in address''
            else if IndexByte hostport CHR ''['' \<ge> 0
              then addrErr hostport ''unexpected '[' in address''
            else if IndexByte hostport CHR '']'' \<ge> 0
              then addrErr hostport ''unexpected ']' in address''
            else Inr (host, drop (nat i + 1) hostport)))"

section \<open>HostInfo\<close>

text \<open>\<^verbatim>\<open>net.IP\<close> is a byte slice; \<open>None\<close> is the nil IP.\<close>

type_synonym IP = bytes

record HostInfo =
  domain :: string
  ip :: "IP option"
  port :: string
  hostWithPort :: string
  targetWithPort :: string

definition reset :: "HostInfo \<Rightarrow> HostInfo" where
  "reset h = h\<lparr>domain := [], ip := None, port := [], hostWithPort := [],
               targetWithPort := []\<rparr>"

definition hasPortFuncByte :: "string \<Rightarrow> bool" where
  "hasPortFuncByte host \<longleftrightarrow> LastIndexByte host CHR '':'' > LastIndexByte host CHR '']''"

text \<open>
  \<^verbatim>\<open>ParseHostWithPort\<close>. The standard library's \<^verbatim>\<open>net.ParseIP\<close> is the parameter
  \<open>ParseIP\<close>: it only decides the field \<open>ip\<close>.
\<close>

definition ParseHostWithPort ::
  "(string \<Rightarrow> IP option) \<Rightarrow> HostInfo \<Rightarrow> string \<Rightarrow> bool \<Rightarrow> HostInfo" where
  "ParseHostWithPort ParseIP h host isHTTPS =
     (if length host = 0 then h
      else
        (case (if \<not> hasPortFuncByte host
               then Inr (h\<lparr>domain := host,
                           port := (if isHTTPS then ''443'' else ''80'')\<rparr>)
               else (case SplitHostPort host of
                       Inl err \<Rightarrow> Inl err
                     | Inr (d, p) \<Rightarrow> Inr (h\<lparr>domain := d, port := p\<rparr>)))
         of Inl err \<Rightarrow> reset h
          | Inr h1 \<Rightarrow>
              if length (domain h1) = 0 then h1
              else
                (let h2 = (case ParseIP (domain h1) of
                             None \<Rightarrow> h1
                           | Some a \<Rightarrow> h1\<lparr>ip := Some a\<rparr>);
                     h3 = h2\<lparr>hostWithPort := domain h2 @ '':'' @ port h2\<rparr>
                 in h3\<lparr>targetWithPort := hostWithPort h3\<rparr>)))"

section \<open>URI\<close>

record URI =
  isConnect :: bool
  full :: bytes
  scheme :: bytes
  host :: bytes
  path :: bytes
  queries :: bytes
  fragments :: bytes
  hostInfo :: HostInfo
  pathWithQueryFragment :: bytes
  pathWithQueryFragmentParsed :: bool

text \<open>The zero value of the struct.\<close>

definition zeroURI :: URI where
  "zeroURI = \<lparr>isConnect = False, full = [], scheme = [], host = [], path = [],
     queries = [], fragments = [],
     hostInfo = \<lparr>domain = [], ip = None, port = [], hostWithPort = [],
                 targetWithPort = []\<rparr>,
     pathWithQueryFragment = [], pathWithQueryFragmentParsed = False\<rparr>"

definition Reset :: "URI \<Rightarrow> URI" where
  "Reset uri = uri\<lparr>isConnect := False, full := [], host := [],
     hostInfo := reset (hostInfo uri), scheme := [], path := [], queries := [],
     fragments := [], pathWithQueryFragment := [],
     pathWithQueryFragmentParsed := False\<rparr>"

text \<open>\<^verbatim>\<open>PathWithQueryFragment\<close> caches its answer in the URI, so it returns the answer
  and the updated URI.\<close>

definition PathWithQueryFragment :: "URI \<Rightarrow> bytes \<times> URI" where
  "PathWithQueryFragment uri =
     (if pathWithQueryFragmentParsed uri then (pathWithQueryFragment uri, uri)
      else if isConnect uri
        then ([], uri\<lparr>pathWithQueryFragment := [], pathWithQueryFragmentParsed := True\<rparr>)
      else
        (let uri1 =
               (if length (host uri) = 0 then uri\<lparr>pathWithQueryFragment := full uri\<rparr>
                else (let hostIndex = Index (full uri) (host uri)
                      in if hostIndex \<ge> 0
                         then uri\<lparr>pathWithQueryFragment :=
                                    drop (nat hostIndex + length (host uri)) (full uri)\<rparr>
                         else uri));
             uri2 =
               (if length (pathWithQueryFragment uri1) = 0
                then uri1\<lparr>pathWithQueryFragment := path uri1\<rparr> else uri1);
             uri3 = uri2\<lparr>pathWithQueryFragmentParsed := True\<rparr>
         in (pathWithQueryFragment uri3, uri3)))"

definition isSchemeChar :: "char \<Rightarrow> bool" where
  "isSchemeChar c =
     (let n = (of_char c :: nat)
      in 97 \<le> n \<and> n \<le> 122 \<or> 65 \<le> n \<and> n \<le> 90 \<or> 48 \<le> n \<and> n \<le> 57)"

text \<open>The loop of \<^verbatim>\<open>getSchemeIndex\<close>: \<open>i\<close> is the loop counter, the list is
  \<^verbatim>\<open>rawURL[i:]\<close>.\<close>

fun getSchemeIndexFrom :: "nat \<Rightarrow> bytes \<Rightarrow> int" where
  "getSchemeIndexFrom i [] = - 1"
| "getSchemeIndexFrom i (c # cs) =
     (if isSchemeChar c then getSchemeIndexFrom (Suc i) cs
      else if c = CHR '':'' then (if i = 0 then 0 else int i)
      else - 1)"

definition getSchemeIndex :: "bytes \<Rightarrow> int" where
  "getSchemeIndex rawURL = getSchemeIndexFrom 0 rawURL"

text \<open>The loop over the leading slashes: \<open>slashIndex\<close> is the index of the last slash
  seen, \<open>i\<close> the loop counter.\<close>

fun slashLoop :: "nat \<Rightarrow> nat \<Rightarrow> bytes \<Rightarrow> nat" where
  "slashLoop slashIndex i [] = slashIndex"
| "slashLoop slashIndex i (b # bs) =
     (if b \<noteq> CHR ''/'' then slashIndex else slashLoop i (Suc i) bs)"

definition parseWithoutSchemeQueriesFragments :: "URI \<Rightarrow> bytes \<Rightarrow> URI" where
  "parseWithoutSchemeQueriesFragments uri reqURI0 =
     (let reqURI =
            (if length (scheme uri) > 0 \<and> length reqURI0 \<ge> 2
                \<and> reqURI0 ! 0 = CHR ''/'' \<and> reqURI0 ! 1 = CHR ''/''
             then drop (slashLoop 0 0 reqURI0 + 1) reqURI0
             else reqURI0)
      in if length reqURI = 0 then uri
         else if reqURI ! 0 = CHR ''/'' then uri\<lparr>path := reqURI\<rparr>
         else
           (let hostNameEnd = IndexByte reqURI CHR ''/''
            in if hostNameEnd > 0
               then uri\<lparr>host := take (nat hostNameEnd) reqURI,
                        path := drop (nat hostNameEnd) reqURI\<rparr>
               else uri\<lparr>host := reqURI\<rparr>))"

definition parseWithoutQueriesFragments :: "URI \<Rightarrow> bytes \<Rightarrow> URI" where
  "parseWithoutQueriesFragments uri reqURI =
     (if length reqURI = 0 then uri
      else
        (let schemeEnd = getSchemeIndex reqURI
         in if schemeEnd \<ge> 0
            then parseWithoutSchemeQueriesFragments
                   (uri\<lparr>scheme := take (nat schemeEnd) reqURI\<rparr>)
                   (drop (nat schemeEnd + 1) reqURI)
            else parseWithoutSchemeQueriesFragments uri reqURI))"

definition parseWithoutFragments :: "URI \<Rightarrow> bytes \<Rightarrow> URI" where
  "parseWithoutFragments uri reqURI =
     (if length reqURI = 0 then uri
      else
        (let queryIndex = IndexByte reqURI CHR ''?''
         in if queryIndex \<ge> 0
            then parseWithoutQueriesFragments
                   (uri\<lparr>queries := drop (nat queryIndex) reqURI\<rparr>)
                   (take (nat queryIndex) reqURI)
            else parseWithoutQueriesFragments uri reqURI))"

definition Parse :: "(string \<Rightarrow> IP option) \<Rightarrow> URI \<Rightarrow> bool \<Rightarrow> bytes \<Rightarrow> URI" where
  "Parse ParseIP uri0 isConnect' reqURI =
     (let uri1 = (Reset uri0)\<lparr>isConnect := isConnect', full := reqURI\<rparr>
      in if length reqURI = 0 then uri1
         else
           (let fragmentIndex = IndexByte reqURI CHR ''#'';
                uri2 =
                  (if fragmentIndex \<ge> 0
                   then parseWithoutFragments
                          (uri1\<lparr>fragments := drop (nat fragmentIndex) reqURI\<rparr>)
                          (take (nat fragmentIndex) reqURI)
                   else parseWithoutFragments uri1 reqURI);
                uri3 =
                  (if \<not> isConnect' \<and> length (path uri2) = 0
                   then uri2\<lparr>path := ''/''\<rparr> else uri2);
                uri4 =
                  (if isConnect'
                   then uri3\<lparr>scheme := [], path := [], queries := [], fragments := []\<rparr>
                   else uri3)
            in uri4\<lparr>hostInfo :=
                       ParseHostWithPort ParseIP (hostInfo uri4) (host uri4) isConnect'\<rparr>))"

definition ChangeHost :: "(string \<Rightarrow> IP option) \<Rightarrow> URI \<Rightarrow> string \<Rightarrow> URI" where
  "ChangeHost ParseIP uri hostWithPort' =
     (if hostWithPort (hostInfo uri) = hostWithPort' then uri
      else
        (let newRawURI0 =
               (if length (host uri) = 0
                then hostWithPort'
                     @ (if length (full uri) = 0
                           \<or> (length (full uri) > 0 \<and> full uri ! 0 \<noteq> CHR ''/'')
                        then ''/'' else [])
                     @ full uri
                else (let hostIndex = Index (full uri) (host uri)
                      in if hostIndex \<ge> 0
                         then (if length hostWithPort' = 0
                               then drop (nat hostIndex + length (host uri)) (full uri)
                               else ReplaceFirst (full uri) (host uri) hostWithPort')
                         else []));
             newRawURI = (if length newRawURI0 = 0 then ''/'' else newRawURI0)
         in Parse ParseIP uri (isConnect uri) newRawURI))"

text \<open>
  \<^verbatim>\<open>ChangePathWithFragment\<close>. The source appends to \<^verbatim>\<open>uri.full[:hostEndIndex]\<close>, which
  may write into the buffer behind the old \<^verbatim>\<open>full\<close>; the old fields are all dropped by
  the \<^verbatim>\<open>Parse\<close> that follows, and the argument is taken as a value that does not live
  in that buffer.
\<close>

definition ChangePathWithFragment ::
  "(string \<Rightarrow> IP option) \<Rightarrow> URI \<Rightarrow> bytes \<Rightarrow> URI" where
  "ChangePathWithFragment ParseIP uri newPathWithFragment =
     (if isConnect uri then uri
      else
        (case PathWithQueryFragment uri of
           (cur, uri1) \<Rightarrow>
             if newPathWithFragment = cur then uri1
             else
               (let newRawURI0 =
                      (if length (host uri1) = 0 then newPathWithFragment
                       else (let hostIndex = Index (full uri1) (host uri1)
                             in if hostIndex \<ge> 0
                                then take (nat hostIndex + length (host uri1)) (full uri1)
                                     @ (if length newPathWithFragment = 0
                                           \<or> (length newPathWithFragment > 0
                                               \<and> newPathWithFragment ! 0 \<noteq> CHR ''/'')
                                        then ''/'' else [])
                                     @ newPathWithFragment
                                else []));
                    newRawURI = (if length newRawURI0 = 0 then ''/'' else newRawURI0)
                in Parse ParseIP uri1 (isConnect uri1) newRawURI)))"

text \<open>An instance of the parameter \<open>ParseIP\<close> for evaluating \<open>Parse\<close> on host names that
  are not IP literals (\<^verbatim>\<open>net.ParseIP\<close> returns nil on them).\<close>

definition ParseIP_none :: "string \<Rightarrow> IP option" where
  "ParseIP_none s = None"

definition zeroHostInfo :: HostInfo where
  "zeroHostInfo = \<lparr>domain = [], ip = None, port = [], hostWithPort = [],
     targetWithPort = []\<rparr>"

section \<open>The dialer\<close>

text \<open>A \<^verbatim>\<open>net.TCPAddr\<close>: the IP and the port.\<close>

type_synonym TCPAddr = "IP \<times> int"

text \<open>Times and durations are nanosecond counts.\<close>

record tcpAddrEntry =
  addrs :: "TCPAddr list"
  addrsIdx :: "32 word"
  resolveTime :: int
  pending :: bool

text \<open>
  The state of the dialer. The map of the source holds pointers to entries, and
  \<^verbatim>\<open>getTCPAddrs\<close> writes both through such a pointer and into the map, so the entries
  live in an explicit store: \<open>entryStore\<close> lists the entries allocated so far and a
  pointer is an index into it. A pointer in the map or in the caller's hand is always
  the index of an allocated entry.
\<close>

record tcpDialer =
  entryStore :: "tcpAddrEntry list"
  tcpAddrsMap :: "string \<rightharpoonup> nat"

definition DefaultDNSCacheDuration :: int where
  "DefaultDNSCacheDuration = 60 * 1000000000"

text \<open>
  \<^verbatim>\<open>resolveTCPAddrs\<close>. The library calls \<^verbatim>\<open>strconv.Atoi\<close> and \<^verbatim>\<open>net.LookupIP\<close> are the
  parameters \<open>Atoi\<close> and \<open>LookupIP\<close>: what the resolver answers belongs to the
  environment.
\<close>

definition resolveTCPAddrs ::
  "(string \<Rightarrow> error + int) \<Rightarrow> (string \<Rightarrow> error + IP list) \<Rightarrow> string
     \<Rightarrow> error + TCPAddr list" where
  "resolveTCPAddrs Atoi LookupIP addr =
     (case SplitHostPort addr of
        Inl err \<Rightarrow> Inl err
      | Inr (host', portS) \<Rightarrow>
          (case Atoi portS of
             Inl err \<Rightarrow> Inl err
           | Inr port' \<Rightarrow>
               (case LookupIP host' of
                  Inl err \<Rightarrow> Inl err
                | Inr ips \<Rightarrow>
                    (let addrs' = map (\<lambda>ip'. (ip', port')) ips
                     in if length addrs' = 0 then Inl errNoDNSEntries
                        else Inr addrs'))))"

text \<open>
  \<^verbatim>\<open>getTCPAddrs\<close> holds \<^verbatim>\<open>tcpAddrsLock\<close> in three separate sections and resolves
  between them, with the lock released. Each section is a function on the state.

  First section: look the entry up; an entry that is not pending and older than
  \<^verbatim>\<open>DefaultDNSCacheDuration\<close> is marked pending through the pointer and the caller goes
  on with \<^verbatim>\<open>e = nil\<close>. \<open>now\<close> is the clock at the test.
\<close>

definition getTCPAddrs_lookup :: "int \<Rightarrow> tcpDialer \<Rightarrow> string \<Rightarrow> tcpDialer \<times> nat option" where
  "getTCPAddrs_lookup now d addr =
     (case tcpAddrsMap d addr of
        None \<Rightarrow> (d, None)
      | Some p \<Rightarrow>
          (let e = entryStore d ! p
           in if \<not> pending e \<and> now - resolveTime e > DefaultDNSCacheDuration
              then (d\<lparr>entryStore := (entryStore d)[p := e\<lparr>pending := True\<rparr>]\<rparr>, None)
              else (d, Some p)))"

text \<open>Second section, after a failed resolution: the pending flag of the entry that the
  map now points to is cleared.\<close>

definition getTCPAddrs_failed :: "tcpDialer \<Rightarrow> string \<Rightarrow> tcpDialer" where
  "getTCPAddrs_failed d addr =
     (case tcpAddrsMap d addr of
        None \<Rightarrow> d
      | Some p \<Rightarrow>
          (let e = entryStore d ! p
           in if pending e then d\<lparr>entryStore := (entryStore d)[p := e\<lparr>pending := False\<rparr>]\<rparr>
              else d))"

text \<open>\<^verbatim>\<open>e = &tcpAddrEntry{...}\<close>: a fresh entry is allocated, outside the lock; the result
  is the new state and the pointer.\<close>

definition newEntry :: "tcpDialer \<Rightarrow> tcpAddrEntry \<Rightarrow> tcpDialer \<times> nat" where
  "newEntry d e = (d\<lparr>entryStore := entryStore d @ [e]\<rparr>, length (entryStore d))"

text \<open>Third section, after a successful resolution: \<^verbatim>\<open>d.tcpAddrsMap[addr] = e\<close>.\<close>

definition getTCPAddrs_store :: "tcpDialer \<Rightarrow> string \<Rightarrow> nat \<Rightarrow> tcpDialer" where
  "getTCPAddrs_store d addr p = d\<lparr>tcpAddrsMap := (tcpAddrsMap d)(addr \<mapsto> p)\<rparr>"

text \<open>\<^verbatim>\<open>atomic.AddUint32(&e.addrsIdx, 1)\<close>: the counter of the entry behind the pointer
  is incremented and the new value returned. The map is not touched.\<close>

definition addAddrsIdx :: "tcpDialer \<Rightarrow> nat \<Rightarrow> tcpDialer \<times> 32 word" where
  "addAddrsIdx d p =
     (let e = entryStore d ! p; idx = addrsIdx e + 1
      in (d\<lparr>entryStore := (entryStore d)[p := e\<lparr>addrsIdx := idx\<rparr>]\<rparr>, idx))"

text \<open>
  \<^verbatim>\<open>getTCPAddrs\<close> run by one caller with no other goroutine in between. \<open>now'\<close> is the
  clock when a fresh entry is built. The result is the new state and
  \<^verbatim>\<open>(addrs, idx, err)\<close>, an error being \<^verbatim>\<open>(nil, 0, err)\<close>.
\<close>

definition getTCPAddrs ::
  "(string \<Rightarrow> error + int) \<Rightarrow> (string \<Rightarrow> error + IP list) \<Rightarrow> int \<Rightarrow> int
     \<Rightarrow> tcpDialer \<Rightarrow> string \<Rightarrow> tcpDialer \<times> (error + (TCPAddr list \<times> 32 word))" where
  "getTCPAddrs Atoi LookupIP now now' d addr =
     (case getTCPAddrs_lookup now d addr of
        (d1, e1) \<Rightarrow>
          (case (case e1 of
                   Some p \<Rightarrow> Inr (d1, p)
                 | None \<Rightarrow>
                     (case resolveTCPAddrs Atoi LookupIP addr of
                        Inl err \<Rightarrow> Inl (getTCPAddrs_failed d1 addr, err)
                      | Inr addrs' \<Rightarrow>
                          (case newEntry d1 \<lparr>addrs = addrs', addrsIdx = 0,
                                             resolveTime = now', pending = False\<rparr>
                           of (d2, p) \<Rightarrow> Inr (getTCPAddrs_store d2 addr p, p))))
           of Inl (d2, err) \<Rightarrow> (d2, Inl err)
            | Inr (d2, p) \<Rightarrow>
                (case addAddrsIdx d2 p of
                   (d3, idx) \<Rightarrow> (d3, Inr (addrs (entryStore d3 ! p), idx)))))"

text \<open>
  The loop of the function returned by \<^verbatim>\<open>newDial\<close>. \<^verbatim>\<open>tryDial\<close> talks to the network
  and the clock, so its outcome is the parameter \<open>tryDial\<close>, asked with the number
  \<open>k\<close> of the attempt and the address. The result is Go's pair \<^verbatim>\<open>(conn, err)\<close>.
  \<^verbatim>\<open>idx\<close> and \<^verbatim>\<open>n\<close> are \<^verbatim>\<open>uint32\<close>. \<open>n\<close> starts at the number of addresses and only
  decreases, so \<open>idx mod n\<close> is always an index of the slice.
\<close>

function dialLoop ::
  "(nat \<Rightarrow> TCPAddr \<Rightarrow> error + 'conn) \<Rightarrow> TCPAddr list \<Rightarrow> nat \<Rightarrow> 32 word \<Rightarrow> 32 word
     \<Rightarrow> error option \<Rightarrow> 'conn option \<times> error option" where
  "dialLoop tryDial addrs' k idx n err =
     (if n > 0
      then (case tryDial k (addrs' ! unat (idx mod n)) of
              Inr conn \<Rightarrow> (Some conn, None)
            | Inl e \<Rightarrow>
                if e = ErrDialTimeout then (None, Some e)
                else dialLoop tryDial addrs' (Suc k) (idx + 1) (n - 1) (Some e))
      else (None, err))"
  by pat_completeness auto
termination
  by (relation "measure (\<lambda>(tryDial, addrs', k, idx, n, err). unat n)")
     (auto simp: unat_minus_one word_greater_zero_iff unat_gt_0)

definition newDial ::
  "(string \<Rightarrow> error + int) \<Rightarrow> (string \<Rightarrow> error + IP list) \<Rightarrow> int \<Rightarrow> int
     \<Rightarrow> (nat \<Rightarrow> TCPAddr \<Rightarrow> error + 'conn) \<Rightarrow> tcpDialer \<Rightarrow> string
     \<Rightarrow> tcpDialer \<times> ('conn option \<times> error option)" where
  "newDial Atoi LookupIP now now' tryDial d addr =
     (case getTCPAddrs Atoi LookupIP now now' d addr of
        (d', Inl err) \<Rightarrow> (d', (None, Some err))
      | (d', Inr (addrs', idx)) \<Rightarrow>
          (d', dialLoop tryDial addrs' 0 idx (of_nat (length addrs')) None))"

text \<open>The dialer after \<^verbatim>\<open>once.Do\<close>: an empty map, no entry allocated.\<close>

definition freshDialer :: tcpDialer where
  "freshDialer = \<lparr>entryStore = [], tcpAddrsMap = Map.empty\<rparr>"

text \<open>An environment for evaluating the dialer: the name \<^verbatim>\<open>example.com\<close> resolves to
  three addresses, of which only the third accepts connections.\<close>

definition exampleAtoi :: "string \<Rightarrow> error + int" where
  "exampleAtoi s = (if s = ''80'' then Inr 80 else Inl (OtherError ''invalid syntax''))"

definition exampleLookupIP :: "string \<Rightarrow> error + IP list" where
  "exampleLookupIP h =
     (if h = ''example.com'' then Inr [''ip0'', ''ip1'', ''ip2'']
      else Inl (OtherError ''no such host''))"

definition exampleTryDial :: "nat \<Rightarrow> TCPAddr \<Rightarrow> error + string" where
  "exampleTryDial k a =
     (if a = (''ip2'', 80) then Inr ''connection to ip2''
      else Inl (OtherError ''connection refused''))"

definition failingLookupIP :: "string \<Rightarrow> error + IP list" where
  "failingLookupIP h = Inl (OtherError ''no such host'')"

definition staleEntry :: tcpAddrEntry where
  "staleEntry = \<lparr>addrs = [(''ip0'', 80)], addrsIdx = 7, resolveTime = 0, pending = False\<rparr>"

text \<open>A dialer whose map points \<^verbatim>\<open>example.com:80\<close> to that entry.\<close>

definition staleDialer :: tcpDialer where
  "staleDialer = \<lparr>entryStore = [staleEntry], tcpAddrsMap = [''example.com:80'' \<mapsto> 0]\<rparr>"

section \<open>The specification's reading of a request URI\<close>

text \<open>The characters of the regular expression \<^verbatim>\<open>[A-Za-z0-9]\<close>.\<close>

definition asciiAlnum :: "char \<Rightarrow> bool" where
  "asciiAlnum c \<longleftrightarrow>
     c \<in> set ''abcdefghijklmnopqrstuvwxyzABCDEFGHIJKLMNOPQRSTUVWXYZ0123456789''"

definition isSlash :: "char \<Rightarrow> bool" where
  "isSlash c \<longleftrightarrow> c = CHR ''/''"

definition notSlash :: "char \<Rightarrow> bool" where
  "notSlash c \<longleftrightarrow> c \<noteq> CHR ''/''"

definition bodyChar :: "char \<Rightarrow> bool" where
  "bodyChar c \<longleftrightarrow> c \<noteq> CHR ''#'' \<and> c \<noteq> CHR ''?''"

text \<open>The part of the request URI before the first \<^verbatim>\<open>#\<close> and the first \<^verbatim>\<open>?\<close>.\<close>

definition specBody :: "bytes \<Rightarrow> bytes" where
  "specBody raw = takeWhile bodyChar raw"

text \<open>The scheme of the regular expression \<^verbatim>\<open>[A-Za-z0-9]+:\<close> at the start of the
  request URI: the longest alphanumeric prefix, when it is not empty and a colon follows
  it; empty when there is no such scheme.\<close>

definition specScheme :: "bytes \<Rightarrow> bytes" where
  "specScheme raw =
     (let s = takeWhile asciiAlnum raw
      in if s \<noteq> [] \<and> take 1 (dropWhile asciiAlnum raw) = '':'' then s else [])"

text \<open>The body after a scheme \<^verbatim>\<open>[A-Za-z0-9]+:\<close>, when it has one; with a scheme and a
  remainder starting with \<^verbatim>\<open>//\<close>, what follows the slashes that introduce the
  authority.\<close>

definition specRemainder :: "bytes \<Rightarrow> bytes" where
  "specRemainder body =
     (let s = takeWhile asciiAlnum body; r = dropWhile asciiAlnum body
      in if s \<noteq> [] \<and> take 1 r = '':''
         then (if take 2 (drop 1 r) = ''//'' then dropWhile isSlash (drop 1 r)
               else drop 1 r)
         else body)"

text \<open>The split of the remainder: a remainder starting with \<^verbatim>\<open>/\<close> is the path;
  otherwise the prefix up to the first \<^verbatim>\<open>/\<close> is the host, the rest (slash included)
  the path.\<close>

definition specHostPathSplit :: "bytes \<Rightarrow> bytes \<times> bytes" where
  "specHostPathSplit r = (takeWhile notSlash r, dropWhile notSlash r)"

definition specPathComponent :: "bytes \<Rightarrow> bytes" where
  "specPathComponent raw = snd (specHostPathSplit (specRemainder (specBody raw)))"

section \<open>Closed forms of the parsing stages\<close>

text \<open>What the stages of \<open>Parse\<close> compute, written with \<open>takeWhile\<close> and \<open>dropWhile\<close>;
  the lemmas below prove that the stages compute exactly these.\<close>

definition schemeOf :: "bytes \<Rightarrow> bytes" where
  "schemeOf body =
     (if take 1 (dropWhile isSchemeChar body) = '':'' then takeWhile isSchemeChar body
      else [])"

definition remainderOf :: "bytes \<Rightarrow> bytes" where
  "remainderOf body =
     (let s = takeWhile isSchemeChar body; r = dropWhile isSchemeChar body
      in if take 1 r = '':''
         then (if s \<noteq> [] \<and> take 2 (drop 1 r) = ''//'' then dropWhile isSlash (drop 1 r)
               else drop 1 r)
         else body)"

definition queriesOf :: "bytes \<Rightarrow> bytes" where
  "queriesOf raw = dropWhile (\<lambda>x. x \<noteq> CHR ''?'') (takeWhile (\<lambda>x. x \<noteq> CHR ''#'') raw)"

definition fragmentsOf :: "bytes \<Rightarrow> bytes" where
  "fragmentsOf raw = dropWhile (\<lambda>x. x \<noteq> CHR ''#'') raw"

section \<open>Hosts for the reconstruction property\<close>






text \<open>The URI \<open>u\<close> has the host \<open>x\<close>, its request URI is \<open>pre @ x @ r\<close>, and the first
  occurrence of \<open>x\<close> in the request URI is the one after \<open>pre\<close>; no path with
  query and fragment is cached.\<close>

definition hostAt :: "URI \<Rightarrow> bytes \<Rightarrow> bytes \<Rightarrow> bytes \<Rightarrow> bool" where
  "hostAt u pre x r \<longleftrightarrow>
     \<not> isConnect u \<and> \<not> pathWithQueryFragmentParsed u \<and> full u = pre @ x @ r
     \<and> host u = x \<and> x \<noteq> [] \<and> Index (pre @ x @ r) x = int (length pre)"

section \<open>Parse keeps the request URI\<close>

lemma full_parseWithoutSchemeQueriesFragments [simp]:
  "full (parseWithoutSchemeQueriesFragments uri r) = full uri"
  by (simp add: parseWithoutSchemeQueriesFragments_def Let_def)

lemma full_parseWithoutQueriesFragments [simp]:
  "full (parseWithoutQueriesFragments uri r) = full uri"
  by (simp add: parseWithoutQueriesFragments_def Let_def)

lemma full_parseWithoutFragments [simp]:
  "full (parseWithoutFragments uri r) = full uri"
  by (simp add: parseWithoutFragments_def Let_def)

section \<open>Index lemmas and the closed form of Parse\<close>

lemma IndexByte_ge0 [simp]: "IndexByte s c \<ge> 0 \<longleftrightarrow> c \<in> set s"
  by (simp add: IndexByte_def)

lemma IndexByte_less0 [simp]: "IndexByte s c < 0 \<longleftrightarrow> c \<notin> set s"
  by (simp add: IndexByte_def)

lemma take_IndexByte: "c \<in> set s \<Longrightarrow> take (nat (IndexByte s c)) s = takeWhile (\<lambda>x. x \<noteq> c) s"
  using takeWhile_eq_take [of "\<lambda>x. x \<noteq> c" s] by (simp add: IndexByte_def)

lemma drop_IndexByte: "c \<in> set s \<Longrightarrow> drop (nat (IndexByte s c)) s = dropWhile (\<lambda>x. x \<noteq> c) s"
  using dropWhile_eq_drop [of "\<lambda>x. x \<noteq> c" s] by (simp add: IndexByte_def)

lemma IndexByte_pos: "IndexByte s c > 0 \<longleftrightarrow> c \<in> set s \<and> hd s \<noteq> c"
  by (cases s) (auto simp: IndexByte_def)

lemma takeWhile_notin: "c \<notin> set s \<Longrightarrow> takeWhile (\<lambda>x. x \<noteq> c) s = s"
  by (induction s) auto

lemma dropWhile_notin: "c \<notin> set s \<Longrightarrow> dropWhile (\<lambda>x. x \<noteq> c) s = []"
  by (induction s) auto

lemma slashLoop_eq:
  "slashLoop si i bs =
     (if takeWhile isSlash bs = [] then si else i + length (takeWhile isSlash bs) - 1)"
  by (induction bs arbitrary: si i) (auto simp: isSlash_def)

lemma drop_slashLoop:
  "bs \<noteq> [] \<Longrightarrow> hd bs = CHR ''/'' \<Longrightarrow> drop (slashLoop 0 0 bs + 1) bs = dropWhile isSlash bs"
proof -
  assume "bs \<noteq> []" "hd bs = CHR ''/''"
  then have "takeWhile isSlash bs \<noteq> []"
    by (cases bs) (simp_all add: isSlash_def)
  then have "slashLoop 0 0 bs + 1 = length (takeWhile isSlash bs)"
    by (simp add: slashLoop_eq)
  then show ?thesis
    using dropWhile_eq_drop [of isSlash bs] by simp
qed

lemma getSchemeIndexFrom_eq:
  "getSchemeIndexFrom i r =
     (if take 1 (dropWhile isSchemeChar r) = '':''
      then int (i + length (takeWhile isSchemeChar r)) else - 1)"
proof (induction r arbitrary: i)
  case Nil
  then show ?case by simp
next
  case (Cons c cs)
  show ?case
  proof (cases "isSchemeChar c")
    case True
    then show ?thesis by (simp add: Cons.IH)
  next
    case False
    then show ?thesis by auto
  qed
qed

lemma colon_not_scheme [simp]: "\<not> isSchemeChar CHR '':''"
  by (simp add: isSchemeChar_def)

lemma getSchemeIndex_eq:
  "getSchemeIndex r =
     (if take 1 (dropWhile isSchemeChar r) = '':''
      then int (length (takeWhile isSchemeChar r)) else - 1)"
  by (simp add: getSchemeIndex_def getSchemeIndexFrom_eq)

lemma take2_iff: "(length r \<ge> 2 \<and> r ! 0 = a \<and> r ! 1 = b) \<longleftrightarrow> take 2 r = [a, b]"
proof (cases r)
  case Nil
  then show ?thesis by simp
next
  case (Cons x xs)
  then show ?thesis by (cases xs) auto
qed

lemma pWSQF_closed:
  assumes "host uri = []" "path uri = []"
  shows "parseWithoutSchemeQueriesFragments uri r =
     (let r' = (if scheme uri \<noteq> [] \<and> take 2 r = ''//'' then dropWhile isSlash r else r)
      in uri\<lparr>host := takeWhile notSlash r', path := dropWhile notSlash r'\<rparr>)"
proof -
  define r' where "r' = (if scheme uri \<noteq> [] \<and> take 2 r = ''//'' then dropWhile isSlash r else r)"
  have r'_code: "(if length (scheme uri) > 0 \<and> length r \<ge> 2
                \<and> r ! 0 = CHR ''/'' \<and> r ! 1 = CHR ''/''
             then drop (slashLoop 0 0 r + 1) r
             else r) = r'"
  proof (cases "scheme uri \<noteq> [] \<and> take 2 r = ''//''")
    case True
    then have "r \<noteq> []" "hd r = CHR ''/''" by (cases r; simp)+
    then have "drop (slashLoop 0 0 r + 1) r = dropWhile isSlash r"
      by (rule drop_slashLoop)
    then show ?thesis using True unfolding r'_def take2_iff by simp
  next
    case False
    then show ?thesis unfolding r'_def take2_iff by auto
  qed
  have step: "parseWithoutSchemeQueriesFragments uri r =
      (if length r' = 0 then uri
         else if r' ! 0 = CHR ''/'' then uri\<lparr>path := r'\<rparr>
         else
           (let hostNameEnd = IndexByte r' CHR ''/''
            in if hostNameEnd > 0
               then uri\<lparr>host := take (nat hostNameEnd) r',
                        path := drop (nat hostNameEnd) r'\<rparr>
               else uri\<lparr>host := r'\<rparr>))"
    unfolding parseWithoutSchemeQueriesFragments_def r'_code Let_def ..
  have upd: "uri\<lparr>host := [], path := []\<rparr> = uri" "uri\<lparr>host := h\<rparr> = uri\<lparr>host := h, path := []\<rparr>"
    "uri\<lparr>path := p\<rparr> = uri\<lparr>host := [], path := p\<rparr>" for h p
    using assms by (cases uri; simp)+
  show ?thesis
  proof (cases "r' = []")
    case True
    then show ?thesis unfolding step r'_def [symmetric] Let_def by (simp add: upd(1))
  next
    case ne: False
    show ?thesis
    proof (cases "hd r' = CHR ''/''")
      case True
      with ne have tw: "takeWhile notSlash r' = []" and dw: "dropWhile notSlash r' = r'"
        by (cases r'; simp add: notSlash_def)+
      from ne True have "r' ! 0 = CHR ''/''" by (simp add: hd_conv_nth)
      then show ?thesis using ne
        unfolding step r'_def [symmetric] Let_def tw dw by (simp add: upd(3) [symmetric])
    next
      case nsl: False
      with ne have n0: "r' ! 0 \<noteq> CHR ''/''" by (simp add: hd_conv_nth)
      show ?thesis
      proof (cases "CHR ''/'' \<in> set r'")
        case True
        then have pos: "0 < IndexByte r' CHR ''/''" using ne nsl by (simp add: IndexByte_pos)
        have tw: "take (nat (IndexByte r' CHR ''/'')) r' = takeWhile notSlash r'"
          and dw: "drop (nat (IndexByte r' CHR ''/'')) r' = dropWhile notSlash r'"
          using True by (simp_all add: take_IndexByte drop_IndexByte notSlash_def [abs_def])
        show ?thesis using ne n0 pos
          unfolding step r'_def [symmetric] Let_def tw dw by simp
      next
        case False
        then have npos: "\<not> 0 < IndexByte r' CHR ''/''" by (simp add: IndexByte_pos)
        have tw: "takeWhile notSlash r' = r'" and dw: "dropWhile notSlash r' = []"
          using False by (simp_all add: notSlash_def [abs_def] takeWhile_notin dropWhile_notin)
        show ?thesis using ne n0 npos
          unfolding step r'_def [symmetric] Let_def tw dw by (simp add: upd(2) [symmetric])
      qed
    qed
  qed
qed

lemma pWQF_closed:
  assumes "scheme uri = []" "host uri = []" "path uri = []"
  shows "parseWithoutQueriesFragments uri body =
     uri\<lparr>scheme := schemeOf body, host := takeWhile notSlash (remainderOf body),
         path := dropWhile notSlash (remainderOf body)\<rparr>"
proof (cases "body = []")
  case True
  then show ?thesis using assms
    by (cases uri) (simp add: parseWithoutQueriesFragments_def schemeOf_def remainderOf_def)
next
  case ne: False
  show ?thesis
  proof (cases "take 1 (dropWhile isSchemeChar body) = '':''")
    case True
    have a: "take (length (takeWhile isSchemeChar body)) body = takeWhile isSchemeChar body"
      using takeWhile_eq_take [of isSchemeChar body] by simp
    have b: "drop (length (takeWhile isSchemeChar body) + 1) body = drop 1 (dropWhile isSchemeChar body)"
      using dropWhile_eq_drop [of isSchemeChar body] by (simp add: add.commute del: One_nat_def)
    show ?thesis using ne True assms
      unfolding parseWithoutQueriesFragments_def getSchemeIndex_eq Let_def
      by (simp add: a b pWSQF_closed schemeOf_def remainderOf_def Let_def del: One_nat_def)
  next
    case False
    then show ?thesis using ne assms
      unfolding parseWithoutQueriesFragments_def getSchemeIndex_eq Let_def
      by (simp add: pWSQF_closed schemeOf_def remainderOf_def Let_def del: One_nat_def)
  qed
qed

lemma takeWhile_both: "takeWhile P (takeWhile Q xs) = takeWhile (\<lambda>x. P x \<and> Q x) xs"
  by (induction xs) auto

lemma specBody_eq:
  "takeWhile (\<lambda>x. x \<noteq> CHR ''?'') (takeWhile (\<lambda>x. x \<noteq> CHR ''#'') raw) = specBody raw"
  by (simp add: takeWhile_both specBody_def bodyChar_def [abs_def] conj_commute)

lemma schemeOf_Nil [simp]: "schemeOf [] = []"
  by (simp add: schemeOf_def)

lemma remainderOf_Nil [simp]: "remainderOf [] = []"
  by (simp add: remainderOf_def)

lemma pWF_closed:
  assumes "scheme uri = []" "host uri = []" "path uri = []" "queries uri = []"
  shows "parseWithoutFragments uri r =
     (let body = takeWhile (\<lambda>x. x \<noteq> CHR ''?'') r
      in uri\<lparr>queries := dropWhile (\<lambda>x. x \<noteq> CHR ''?'') r, scheme := schemeOf body,
             host := takeWhile notSlash (remainderOf body),
             path := dropWhile notSlash (remainderOf body)\<rparr>)"
proof (cases "CHR ''?'' \<in> set r")
  case True
  then have "r \<noteq> []" by auto
  then show ?thesis using True assms
    unfolding parseWithoutFragments_def Let_def
    by (simp add: take_IndexByte drop_IndexByte pWQF_closed)
next
  case False
  have "parseWithoutQueriesFragments uri [] = uri"
    by (simp add: parseWithoutQueriesFragments_def)
  then show ?thesis using False assms
    unfolding parseWithoutFragments_def Let_def
    by (cases uri) (simp add: takeWhile_notin dropWhile_notin pWQF_closed)
qed

lemma Parse_closed:
  assumes "raw \<noteq> []"
  shows "Parse ParseIP uri0 isC raw =
     (let rem = remainderOf (specBody raw); hp = takeWhile notSlash rem;
          pth = dropWhile notSlash rem
      in \<lparr>isConnect = isC, full = raw,
          scheme = (if isC then [] else schemeOf (specBody raw)),
          host = hp,
          path = (if isC then [] else if pth = [] then ''/'' else pth),
          queries = (if isC then [] else queriesOf raw),
          fragments = (if isC then [] else fragmentsOf raw),
          hostInfo = ParseHostWithPort ParseIP (reset (hostInfo uri0)) hp isC,
          pathWithQueryFragment = [], pathWithQueryFragmentParsed = False\<rparr>)"
proof (cases "CHR ''#'' \<in> set raw")
  case True
  then show ?thesis using assms
    unfolding Parse_def Let_def Reset_def
    by (cases uri0)
       (simp add: take_IndexByte drop_IndexByte pWF_closed specBody_eq queriesOf_def
          fragmentsOf_def Let_def)
next
  case False
  then show ?thesis using assms
    unfolding Parse_def Let_def Reset_def
    by (cases uri0)
       (simp add: takeWhile_notin dropWhile_notin pWF_closed specBody_eq [symmetric] queriesOf_def
          fragmentsOf_def Let_def)
qed

lemma Parse_empty:
  "Parse ParseIP uri0 isC [] =
     \<lparr>isConnect = isC, full = [], scheme = [], host = [], path = [], queries = [],
      fragments = [], hostInfo = reset (hostInfo uri0),
      pathWithQueryFragment = [], pathWithQueryFragmentParsed = False\<rparr>"
  unfolding Parse_def Let_def Reset_def by (cases uri0) simp

section \<open>The code's stages against the specification's reading\<close>

lemma isSchemeChar_asciiAlnum: "isSchemeChar c \<longleftrightarrow> asciiAlnum c"
  by (cases c) (simp add: isSchemeChar_def asciiAlnum_def)

lemma isSchemeChar_eq: "isSchemeChar = asciiAlnum"
  by (rule ext) (rule isSchemeChar_asciiAlnum)

lemma colon_not_alnum [simp]: "\<not> asciiAlnum CHR '':''"
  by (simp add: asciiAlnum_def)

lemma asciiAlnum_bodyChar: "asciiAlnum c \<Longrightarrow> bodyChar c"
  by (auto simp: asciiAlnum_def bodyChar_def)

lemma takeWhile_weaker:
  "(\<And>x. P x \<Longrightarrow> Q x) \<Longrightarrow> takeWhile P (takeWhile Q xs) = takeWhile P xs"
  by (induction xs) auto

lemma dropWhile_takeWhile_weaker:
  "(\<And>x. P x \<Longrightarrow> Q x) \<Longrightarrow>
     dropWhile P (takeWhile Q xs) = takeWhile Q (dropWhile P xs)"
  by (induction xs) auto

lemma schemeOf_specBody: "schemeOf (specBody raw) = specScheme raw"
proof -
  have tw: "takeWhile asciiAlnum (specBody raw) = takeWhile asciiAlnum raw"
    unfolding specBody_def by (rule takeWhile_weaker) (rule asciiAlnum_bodyChar)
  have dw: "dropWhile asciiAlnum (specBody raw) = takeWhile bodyChar (dropWhile asciiAlnum raw)"
    unfolding specBody_def by (rule dropWhile_takeWhile_weaker) (rule asciiAlnum_bodyChar)
  have c: "take 1 (takeWhile bodyChar r) = '':'' \<longleftrightarrow> take 1 r = '':''" for r
    by (cases r) (auto simp: bodyChar_def)
  show ?thesis
    unfolding schemeOf_def specScheme_def isSchemeChar_eq tw dw c Let_def
    by (cases "dropWhile asciiAlnum raw") auto
qed

lemma specPath_remainderOf:
  "dropWhile notSlash (remainderOf body) = dropWhile notSlash (specRemainder body)"
proof (cases "takeWhile asciiAlnum body = [] \<and> take 1 (dropWhile asciiAlnum body) = '':''")
  case True
  then have "dropWhile asciiAlnum body = body"
    by (metis takeWhile_dropWhile_id append_Nil)
  with True obtain t where "body = CHR '':'' # t"
    by (cases body) auto
  then show ?thesis using True
    by (simp add: remainderOf_def specRemainder_def isSchemeChar_eq Let_def notSlash_def)
next
  case False
  then show ?thesis
    by (auto simp add: remainderOf_def specRemainder_def isSchemeChar_eq Let_def)
qed

lemma specPathComponent_eq:
  "specPathComponent raw = dropWhile notSlash (remainderOf (specBody raw))"
  by (simp only: specPathComponent_def specHostPathSplit_def snd_conv specPath_remainderOf)

lemma Parse_scheme_eq: "scheme (Parse ParseIP uri0 False raw) = specScheme raw"
  by (cases "raw = []")
     (simp_all add: Parse_closed Parse_empty Let_def schemeOf_specBody specScheme_def)

lemma takeWhile_alnum_app:
  "list_all asciiAlnum s \<Longrightarrow> \<not> asciiAlnum c \<Longrightarrow> takeWhile asciiAlnum (s @ c # rest) = s"
  by (induction s) auto

lemma dropWhile_alnum_app:
  "list_all asciiAlnum s \<Longrightarrow> \<not> asciiAlnum c \<Longrightarrow> dropWhile asciiAlnum (s @ c # rest) = c # rest"
  by (induction s) auto

lemma specScheme_match:
  "s \<noteq> [] \<Longrightarrow> list_all asciiAlnum s \<Longrightarrow> specScheme (s @ CHR '':'' # rest) = s"
  by (simp add: specScheme_def takeWhile_alnum_app dropWhile_alnum_app)

lemma specScheme_nonempty:
  assumes "specScheme raw \<noteq> []"
  shows "\<exists>s rest. s \<noteq> [] \<and> list_all asciiAlnum s \<and> raw = s @ CHR '':'' # rest"
proof -
  let ?s = "takeWhile asciiAlnum raw"
  from assms have ne: "?s \<noteq> []" and c: "take 1 (dropWhile asciiAlnum raw) = '':''"
    by (auto simp: specScheme_def Let_def split: if_splits)
  from c obtain rest where d: "dropWhile asciiAlnum raw = CHR '':'' # rest"
    by (cases "dropWhile asciiAlnum raw") auto
  have "raw = ?s @ dropWhile asciiAlnum raw" by simp
  with d have "raw = ?s @ CHR '':'' # rest" by simp
  moreover have "list_all asciiAlnum ?s"
    by (auto simp: list_all_iff dest: set_takeWhileD)
  ultimately show ?thesis using ne by blast
qed

lemma specScheme_other:
  "list_all asciiAlnum s \<Longrightarrow> \<not> asciiAlnum c \<Longrightarrow> c \<noteq> CHR '':'' \<Longrightarrow>
     specScheme (s @ c # rest) = []"
  by (simp add: specScheme_def takeWhile_alnum_app dropWhile_alnum_app)

lemma asciiAlnum_all_bodyChar: "list_all asciiAlnum s \<Longrightarrow> takeWhile bodyChar (s @ r) = s @ takeWhile bodyChar r"
  by (induction s) (auto simp: asciiAlnum_bodyChar)

lemma specBody_authority:
  "list_all asciiAlnum s \<Longrightarrow> specBody (s @ ''://'' @ t) = s @ ''://'' @ specBody t"
  by (simp add: specBody_def asciiAlnum_all_bodyChar) (simp add: bodyChar_def)

lemma remainderOf_authority:
  "s \<noteq> [] \<Longrightarrow> list_all asciiAlnum s \<Longrightarrow>
     remainderOf (s @ ''://'' @ b) = dropWhile isSlash b"
  by (simp add: remainderOf_def isSchemeChar_eq takeWhile_alnum_app dropWhile_alnum_app
        isSlash_def)

section \<open>Claims about Parse\<close>

text \<open>
  C2. For every byte string \<open>raw\<close>, every flag and every URI the method is called on,
  the field \<open>full\<close> after \<open>Parse\<close> is \<open>raw\<close>.
\<close>

theorem Parse_full: "full (Parse ParseIP uri isC raw) = raw"
  by (simp add: Parse_def Let_def)

text \<open>
  C3, as amended. For every non-empty \<open>raw\<close>, the path after a non-CONNECT \<open>Parse\<close> is
  \<^verbatim>\<open>/\<close> when the request URI has no path component, and the path component otherwise;
  in particular it is \<^verbatim>\<open>/\<close> when \<open>raw\<close> has no slash at all, as a bare host.
\<close>

theorem Parse_path_default:
  assumes "raw \<noteq> []"
  shows "path (Parse ParseIP uri0 False raw) =
           (if specPathComponent raw = [] then ''/'' else specPathComponent raw)
         \<and> (CHR ''/'' \<notin> set raw \<longrightarrow> path (Parse ParseIP uri0 False raw) = ''/'')"
proof -
  have p: "path (Parse ParseIP uri0 False raw) =
           (if specPathComponent raw = [] then ''/'' else specPathComponent raw)"
    unfolding specPathComponent_eq using assms
    by (simp add: Parse_closed Let_def)
  have "set (specPathComponent raw) \<subseteq> set raw"
  proof -
    have "set (specPathComponent raw) \<subseteq> set (remainderOf (specBody raw))"
      unfolding specPathComponent_eq by (auto dest: set_dropWhileD)
    also have "\<dots> \<subseteq> set (specBody raw)"
      by (auto simp: remainderOf_def Let_def dest: in_set_dropD set_dropWhileD)
    also have "\<dots> \<subseteq> set raw"
      unfolding specBody_def by (auto dest: set_takeWhileD)
    finally show ?thesis .
  qed
  moreover have "specPathComponent raw \<noteq> [] \<Longrightarrow> hd (specPathComponent raw) = CHR ''/''"
    unfolding specPathComponent_def specHostPathSplit_def snd_conv
    using hd_dropWhile [of notSlash] by (simp add: notSlash_def)
  ultimately have "CHR ''/'' \<notin> set raw \<Longrightarrow> specPathComponent raw = []"
    by (metis hd_in_set subsetD)
  with p show ?thesis by simp
qed

text \<open>Witness for C3: the bare host \<^verbatim>\<open>example.com\<close>.\<close>

theorem Parse_path_default_witness:
  "''example.com'' \<noteq> [] \<and> CHR ''/'' \<notin> set ''example.com''
   \<and> specPathComponent ''example.com'' = []
   \<and> path (Parse ParseIP_none zeroURI False ''example.com'') = ''/''"
  using Parse_path_default [of "''example.com''" ParseIP_none zeroURI]
  by (simp add: specPathComponent_def specHostPathSplit_def specRemainder_def specBody_def
        bodyChar_def asciiAlnum_def notSlash_def)

text \<open>
  Counterexample to C3 as stated: the empty request URI has no path component, and
  \<open>Parse\<close> returns before the default is applied, so the path stays empty.
\<close>

theorem Parse_path_empty_counterexample:
  "specPathComponent [] = [] \<and> path (Parse ParseIP_none zeroURI False []) \<noteq> ''/''"
  by (simp add: Parse_empty specPathComponent_def specHostPathSplit_def specRemainder_def
        specBody_def)

lemma getSchemeIndex_pos: "0 < getSchemeIndex r \<longleftrightarrow> specScheme r \<noteq> []"
  by (simp add: getSchemeIndex_eq specScheme_def isSchemeChar_eq Let_def)

text \<open>
  C4. \<open>getSchemeIndex\<close> finds a scheme of one or more characters exactly when its input
  begins with one or more ASCII alphanumeric characters followed by a colon, and so does
  a non-CONNECT \<open>Parse\<close>, whose scheme is then that prefix; a leading colon gives the
  index 0 and the empty scheme; a character that is neither alphanumeric nor a colon
  before any colon gives the empty scheme.
\<close>

theorem Parse_scheme_regex:
  "(0 < getSchemeIndex raw \<longleftrightarrow>
      (\<exists>s rest. s \<noteq> [] \<and> list_all asciiAlnum s \<and> raw = s @ CHR '':'' # rest))
   \<and> (scheme (Parse ParseIP uri0 False raw) \<noteq> [] \<longleftrightarrow>
      (\<exists>s rest. s \<noteq> [] \<and> list_all asciiAlnum s \<and> raw = s @ CHR '':'' # rest))
   \<and> (s \<noteq> [] \<and> list_all asciiAlnum s \<longrightarrow>
        scheme (Parse ParseIP uri0 False (s @ CHR '':'' # rest)) = s)
   \<and> getSchemeIndex (CHR '':'' # rest) = 0
   \<and> scheme (Parse ParseIP uri0 False (CHR '':'' # rest)) = []
   \<and> (list_all asciiAlnum s \<and> \<not> asciiAlnum c \<and> c \<noteq> CHR '':'' \<longrightarrow>
        scheme (Parse ParseIP uri0 False (s @ c # rest)) = [])"
proof -
  have "specScheme raw \<noteq> [] \<longleftrightarrow>
      (\<exists>s rest. s \<noteq> [] \<and> list_all asciiAlnum s \<and> raw = s @ CHR '':'' # rest)"
    using specScheme_nonempty [of raw] specScheme_match by auto
  moreover have "specScheme (CHR '':'' # rest) = []"
    by (simp add: specScheme_def)
  moreover have "getSchemeIndex (CHR '':'' # rest) = 0"
    by (simp add: getSchemeIndex_def)
  ultimately show ?thesis
    unfolding Parse_scheme_eq getSchemeIndex_pos
    by (simp add: specScheme_match specScheme_other)
qed

text \<open>Witness for C4: \<^verbatim>\<open>http://h/p\<close>, \<^verbatim>\<open>:80\<close> and \<^verbatim>\<open>http/x:y\<close>.\<close>

theorem Parse_scheme_regex_witness:
  "''http'' \<noteq> [] \<and> list_all asciiAlnum ''http'' \<and> \<not> asciiAlnum CHR ''/'' \<and> CHR ''/'' \<noteq> CHR '':''
   \<and> scheme (Parse ParseIP_none zeroURI False ''http://h/p'') = ''http''
   \<and> getSchemeIndex '':80'' = 0
   \<and> scheme (Parse ParseIP_none zeroURI False '':80'') = []
   \<and> scheme (Parse ParseIP_none zeroURI False ''http/x:y'') = []"
  using Parse_scheme_regex [where ParseIP = ParseIP_none and ?uri0.0 = zeroURI
      and raw = "''http://h/p''" and s = "''http''" and rest = "''//h/p''" and c = "CHR ''/''"]
    Parse_scheme_regex [where ParseIP = ParseIP_none and ?uri0.0 = zeroURI
      and raw = "''http://h/p''" and s = "''http''" and rest = "''80''" and c = "CHR ''/''"]
    Parse_scheme_regex [where ParseIP = ParseIP_none and ?uri0.0 = zeroURI
      and raw = "''http://h/p''" and s = "''http''" and rest = "''x:y''" and c = "CHR ''/''"]
  by (simp add: asciiAlnum_def)

text \<open>
  C5, as amended. For a request URI made of a scheme, a colon and a remainder starting
  with \<^verbatim>\<open>//\<close>, \<open>Parse\<close> consumes all the leading slashes of the remainder, leaving none,
  and splits what is left: the prefix up to the first slash is the host, the rest the
  path, \<^verbatim>\<open>/\<close> when the rest is empty.
\<close>

theorem Parse_authority_slashes:
  assumes "s \<noteq> []" "list_all asciiAlnum s"
  shows "host (Parse ParseIP uri0 False (s @ ''://'' @ t)) =
           fst (specHostPathSplit (dropWhile isSlash (specBody t)))
         \<and> path (Parse ParseIP uri0 False (s @ ''://'' @ t)) =
             (let p = snd (specHostPathSplit (dropWhile isSlash (specBody t)))
              in if p = [] then ''/'' else p)"
proof -
  have rem: "remainderOf (specBody (s @ ''://'' @ t)) = dropWhile isSlash (specBody t)"
    using assms specBody_authority [of s t] remainderOf_authority [of s "specBody t"]
    by simp
  have ne: "s @ ''://'' @ t \<noteq> []" by simp
  show ?thesis
    unfolding Parse_closed [OF ne] rem Let_def specHostPathSplit_def by simp
qed

text \<open>Witness for C5: \<^verbatim>\<open>http://h/p\<close> has host \<^verbatim>\<open>h\<close> and path \<^verbatim>\<open>/p\<close>.\<close>

theorem Parse_authority_slashes_witness:
  "''http'' \<noteq> [] \<and> list_all asciiAlnum ''http''
   \<and> host (Parse ParseIP_none zeroURI False ''http://h/p'') = ''h''
   \<and> path (Parse ParseIP_none zeroURI False ''http://h/p'') = ''/p''"
  using Parse_authority_slashes [of "''http''" ParseIP_none zeroURI "''h/p''"]
  by (simp add: asciiAlnum_def specHostPathSplit_def specBody_def bodyChar_def isSlash_def
        notSlash_def)

text \<open>
  Counterexample to C5 as stated: if one of the leading slashes were left, the split of
  \<^verbatim>\<open>http://h/p\<close> would be an empty host and the path \<^verbatim>\<open>/h/p\<close>; \<open>Parse\<close> gives the
  host \<^verbatim>\<open>h\<close> and the path \<^verbatim>\<open>/p\<close>.
\<close>

theorem Parse_authority_slashes_counterexample:
  "(host (Parse ParseIP_none zeroURI False ''http://h/p''),
    path (Parse ParseIP_none zeroURI False ''http://h/p''))
   \<noteq> specHostPathSplit (CHR ''/'' # dropWhile isSlash ''//h/p'')"
  by (simp add: Parse_closed specBody_def bodyChar_def remainderOf_def isSchemeChar_eq
        asciiAlnum_def isSlash_def notSlash_def specHostPathSplit_def Let_def)

text \<open>
  C6. After \<open>Parse\<close> of a CONNECT target the scheme, the path, the queries and the
  fragments are empty, and \<open>PathWithQueryFragment\<close> returns the empty slice.
\<close>

theorem Parse_connect:
  "scheme (Parse ParseIP uri0 True raw) = []
   \<and> path (Parse ParseIP uri0 True raw) = []
   \<and> queries (Parse ParseIP uri0 True raw) = []
   \<and> fragments (Parse ParseIP uri0 True raw) = []
   \<and> fst (PathWithQueryFragment (Parse ParseIP uri0 True raw)) = []"
  by (cases "raw = []")
     (simp_all add: Parse_closed Parse_empty Let_def PathWithQueryFragment_def)

section \<open>Claims about HostInfo\<close>

lemma LastIndexByte_notin: "c \<notin> set s \<Longrightarrow> LastIndexByte s c = - 1"
  by (simp add: LastIndexByte_def)

lemma LastIndexByte_app:
  "c \<notin> set b \<Longrightarrow> LastIndexByte (a @ c # b) c = int (length a)"
proof -
  assume "c \<notin> set b"
  then have "takeWhile (\<lambda>x. x \<noteq> c) (rev b @ c # rev a) = rev b"
    by (induction b rule: rev_induct) auto
  then show ?thesis by (simp add: LastIndexByte_def)
qed

lemma LastIndexByte_in: "c \<in> set s \<Longrightarrow> 0 \<le> LastIndexByte s c"
proof -
  assume "c \<in> set s"
  then obtain a b where "s = a @ c # b" "c \<notin> set b"
    using split_list_last by fastforce
  then show ?thesis using LastIndexByte_app [of c b a] by simp
qed

lemma LastIndexByte_less0 [simp]: "LastIndexByte s c < 0 \<longleftrightarrow> c \<notin> set s"
  using LastIndexByte_in [of c s] LastIndexByte_notin [of c s] by fastforce

lemma LastIndexByte_lower: "- 1 \<le> LastIndexByte s c"
  using LastIndexByte_in [of c s] LastIndexByte_notin [of c s] by fastforce

lemma hasPortFuncByte_iff:
  "hasPortFuncByte hp \<longleftrightarrow>
     (\<exists>a b. hp = a @ CHR '':'' # b \<and> CHR '':'' \<notin> set b \<and> CHR '']'' \<notin> set b)"
proof
  assume hp: "hasPortFuncByte hp"
  then have "\<not> LastIndexByte hp CHR '':'' < 0"
    using LastIndexByte_lower [of hp "CHR '']''"] unfolding hasPortFuncByte_def
    by linarith
  then have "CHR '':'' \<in> set hp" by simp
  then obtain a b where ab: "hp = a @ CHR '':'' # b" "CHR '':'' \<notin> set b"
    using split_list_last by fastforce
  have "CHR '']'' \<notin> set b"
  proof
    assume "CHR '']'' \<in> set b"
    then obtain b1 b2 where b: "b = b1 @ CHR '']'' # b2" "CHR '']'' \<notin> set b2"
      using split_list_last by fastforce
    then have "hp = (a @ CHR '':'' # b1) @ CHR '']'' # b2" using ab by simp
    then have "LastIndexByte hp CHR '']'' = int (length (a @ CHR '':'' # b1))"
      using b(2) LastIndexByte_app by blast
    moreover have "LastIndexByte hp CHR '':'' = int (length a)"
      using ab LastIndexByte_app by blast
    ultimately show False using hp unfolding hasPortFuncByte_def by simp
  qed
  with ab show "\<exists>a b. hp = a @ CHR '':'' # b \<and> CHR '':'' \<notin> set b \<and> CHR '']'' \<notin> set b"
    by blast
next
  assume "\<exists>a b. hp = a @ CHR '':'' # b \<and> CHR '':'' \<notin> set b \<and> CHR '']'' \<notin> set b"
  then obtain a b where ab: "hp = a @ CHR '':'' # b" "CHR '':'' \<notin> set b" "CHR '']'' \<notin> set b"
    by blast
  have c: "LastIndexByte hp CHR '':'' = int (length a)"
    using ab LastIndexByte_app by blast
  show "hasPortFuncByte hp"
  proof (cases "CHR '']'' \<in> set a")
    case True
    then obtain a1 a2 where a: "a = a1 @ CHR '']'' # a2" "CHR '']'' \<notin> set a2"
      using split_list_last by fastforce
    then have "hp = a1 @ CHR '']'' # (a2 @ CHR '':'' # b)" using ab by simp
    moreover have "CHR '']'' \<notin> set (a2 @ CHR '':'' # b)" using a ab by simp
    ultimately have "LastIndexByte hp CHR '']'' = int (length a1)"
      using LastIndexByte_app by blast
    then show ?thesis using c a unfolding hasPortFuncByte_def by simp
  next
    case False
    then have "CHR '']'' \<notin> set hp" using ab by simp
    then show ?thesis using c unfolding hasPortFuncByte_def by (simp add: LastIndexByte_notin)
  qed
qed

lemma ParseHostWithPort_noport:
  assumes "hp \<noteq> []" "\<not> hasPortFuncByte hp"
  shows "domain (ParseHostWithPort ParseIP h hp isHTTPS) = hp"
    "port (ParseHostWithPort ParseIP h hp isHTTPS) = (if isHTTPS then ''443'' else ''80'')"
    "hostWithPort (ParseHostWithPort ParseIP h hp isHTTPS) =
       hp @ '':'' @ (if isHTTPS then ''443'' else ''80'')"
  using assms by (auto simp: ParseHostWithPort_def Let_def split: option.splits)

lemma ParseHostWithPort_hostWithPort:
  assumes "domain (ParseHostWithPort ParseIP h hp isHTTPS) \<noteq> []" "hp \<noteq> []"
  shows "hostWithPort (ParseHostWithPort ParseIP h hp isHTTPS) =
     domain (ParseHostWithPort ParseIP h hp isHTTPS) @ '':''
       @ port (ParseHostWithPort ParseIP h hp isHTTPS)"
  using assms
  by (auto simp: ParseHostWithPort_def Let_def reset_def
      split: option.splits sum.splits if_splits prod.splits)

text \<open>
  C7, as amended. For every non-empty host string: without a port (no colon after the
  last \<^verbatim>\<open>]\<close>) the domain is the whole string and the port is \<^verbatim>\<open>443\<close> when the flag is set
  and \<^verbatim>\<open>80\<close> otherwise; a port is present exactly when the string has a colon with
  neither a colon nor a \<^verbatim>\<open>]\<close> after it, which keeps the colons of a bracketed IPv6
  literal out; and whenever the resulting domain is not empty, \<open>hostWithPort\<close> is the
  domain, a colon and the port.
\<close>

theorem ParseHostWithPort_ports:
  assumes "hp \<noteq> []"
  shows "(\<not> hasPortFuncByte hp \<longrightarrow>
            domain (ParseHostWithPort ParseIP h hp isHTTPS) = hp
          \<and> port (ParseHostWithPort ParseIP h hp isHTTPS)
              = (if isHTTPS then ''443'' else ''80''))
       \<and> (hasPortFuncByte hp \<longleftrightarrow>
            (\<exists>a b. hp = a @ CHR '':'' # b \<and> CHR '':'' \<notin> set b \<and> CHR '']'' \<notin> set b))
       \<and> (domain (ParseHostWithPort ParseIP h hp isHTTPS) \<noteq> [] \<longrightarrow>
            hostWithPort (ParseHostWithPort ParseIP h hp isHTTPS) =
              domain (ParseHostWithPort ParseIP h hp isHTTPS) @ '':''
                @ port (ParseHostWithPort ParseIP h hp isHTTPS))"
  using assms ParseHostWithPort_noport [of hp ParseIP h isHTTPS]
    ParseHostWithPort_hostWithPort [of ParseIP h hp isHTTPS]
    hasPortFuncByte_iff [of hp]
  by blast

text \<open>Witness for C7: the IPv6 literal \<^verbatim>\<open>[::1]\<close> without a port, for HTTPS.\<close>

theorem ParseHostWithPort_ports_witness:
  "''[::1]'' \<noteq> [] \<and> \<not> hasPortFuncByte ''[::1]''
   \<and> domain (ParseHostWithPort ParseIP_none zeroHostInfo ''[::1]'' True) = ''[::1]''
   \<and> domain (ParseHostWithPort ParseIP_none zeroHostInfo ''[::1]'' True) \<noteq> []
   \<and> port (ParseHostWithPort ParseIP_none zeroHostInfo ''[::1]'' True) = ''443''
   \<and> hostWithPort (ParseHostWithPort ParseIP_none zeroHostInfo ''[::1]'' True) = ''[::1]:443''"
  using ParseHostWithPort_ports [of "''[::1]''" ParseIP_none zeroHostInfo True]
  by (simp add: hasPortFuncByte_def LastIndexByte_def)

text \<open>
  Counterexample to C7 as stated: the non-empty host string \<^verbatim>\<open>:80\<close> splits into an empty
  domain and the port \<^verbatim>\<open>80\<close>; the function returns at its empty-domain guard and
  \<open>hostWithPort\<close> stays empty, which is not \<^verbatim>\<open>:80\<close>.
\<close>

theorem ParseHostWithPort_ports_counterexample:
  "'':80'' \<noteq> []
   \<and> hostWithPort (ParseHostWithPort ParseIP_none zeroHostInfo '':80'' False)
     \<noteq> domain (ParseHostWithPort ParseIP_none zeroHostInfo '':80'' False) @ '':''
       @ port (ParseHostWithPort ParseIP_none zeroHostInfo '':80'' False)"
  by (simp add: ParseHostWithPort_def hasPortFuncByte_def LastIndexByte_def SplitHostPort_def
        IndexByte_def zeroHostInfo_def Let_def)

text \<open>
  C10. For every host string that has a port separator and on which \<^verbatim>\<open>net.SplitHostPort\<close>
  fails, \<open>ParseHostWithPort\<close> leaves every field of the HostInfo reset, whatever the
  HostInfo held before.
\<close>

theorem ParseHostWithPort_split_error:
  assumes "hasPortFuncByte hp" "SplitHostPort hp = Inl err"
  shows "ParseHostWithPort ParseIP h hp isHTTPS =
     \<lparr>domain = [], ip = None, port = [], hostWithPort = [], targetWithPort = []\<rparr>"
proof -
  from assms(1) have "hp \<noteq> []" using hasPortFuncByte_iff by auto
  then show ?thesis using assms
    by (cases h) (simp add: ParseHostWithPort_def reset_def)
qed

text \<open>Witness for C10: \<^verbatim>\<open>a:b:c\<close> has too many colons; a populated HostInfo is cleared.\<close>

theorem ParseHostWithPort_split_error_witness:
  "hasPortFuncByte ''a:b:c''
   \<and> SplitHostPort ''a:b:c'' = Inl (AddrError ''too many colons in address'' ''a:b:c'')
   \<and> ParseHostWithPort ParseIP_none
        \<lparr>domain = ''old'', ip = Some ''ip0'', port = ''1'', hostWithPort = ''old:1'',
         targetWithPort = ''ip0:1''\<rparr> ''a:b:c'' False =
      \<lparr>domain = [], ip = None, port = [], hostWithPort = [], targetWithPort = []\<rparr>"
proof -
  have a: "hasPortFuncByte ''a:b:c''"
    by (simp add: hasPortFuncByte_def LastIndexByte_def)
  have b: "SplitHostPort ''a:b:c'' = Inl (AddrError ''too many colons in address'' ''a:b:c'')"
    by (simp add: SplitHostPort_def LastIndexByte_def IndexByte_def addrErr_def Let_def)
  show ?thesis using a b ParseHostWithPort_split_error [OF a b] by simp
qed

section \<open>Claims about the dialer\<close>

lemma resolve_example:
  "resolveTCPAddrs exampleAtoi exampleLookupIP ''example.com:80'' =
     Inr [(''ip0'', 80), (''ip1'', 80), (''ip2'', 80)]"
  by (simp add: resolveTCPAddrs_def SplitHostPort_def LastIndexByte_def IndexByte_def
        exampleAtoi_def exampleLookupIP_def Let_def)

lemma getTCPAddrs_example:
  "getTCPAddrs exampleAtoi exampleLookupIP 0 0 freshDialer ''example.com:80'' =
     (\<lparr>entryStore = [\<lparr>addrs = [(''ip0'', 80), (''ip1'', 80), (''ip2'', 80)], addrsIdx = 1,
                       resolveTime = 0, pending = False\<rparr>],
       tcpAddrsMap = [''example.com:80'' \<mapsto> 0]\<rparr>,
      Inr ([(''ip0'', 80), (''ip1'', 80), (''ip2'', 80)], 1))"
  by (simp add: getTCPAddrs_def getTCPAddrs_lookup_def getTCPAddrs_store_def newEntry_def
        addAddrsIdx_def freshDialer_def resolve_example Let_def)

lemma dialLoop_example:
  "dialLoop exampleTryDial [(''ip0'', 80), (''ip1'', 80), (''ip2'', 80)] 0 1 3 None =
     (None, Some (OtherError ''connection refused''))"
  by (simp add: exampleTryDial_def)

text \<open>What the loop does on its first address: a connection ends the dial, a timeout
  aborts it.\<close>

lemma dialLoop_connected:
  "0 < n \<Longrightarrow> tryDial k (addrs' ! unat (idx mod n)) = Inr conn \<Longrightarrow>
     dialLoop tryDial addrs' k idx n err = (Some conn, None)"
  by simp

lemma dialLoop_timeout:
  "0 < n \<Longrightarrow> tryDial k (addrs' ! unat (idx mod n)) = Inl ErrDialTimeout \<Longrightarrow>
     dialLoop tryDial addrs' k idx n err = (None, Some ErrDialTimeout)"
  by simp

lemma dialLoop_next:
  "0 < n \<Longrightarrow> tryDial k (addrs' ! unat (idx mod n)) = Inl e \<Longrightarrow> e \<noteq> ErrDialTimeout \<Longrightarrow>
     dialLoop tryDial addrs' k idx n err
       = dialLoop tryDial addrs' (Suc k) (idx + 1) (n - 1) (Some e)"
  by simp

text \<open>
  C8, evaluated on the first dial of a name that resolves to three addresses of which
  the first two refuse the connection and the third would accept it. \<open>getTCPAddrs\<close>
  returns \<open>idx = 1\<close>; the loop decrements \<open>n\<close> while it uses it as the modulus, so it
  tries the indices \<open>1 mod 3 = 1\<close>, \<open>2 mod 2 = 0\<close> and \<open>3 mod 1 = 0\<close>. The third address is
  never tried and the dial fails with the last error.
\<close>

theorem newDial_misses_address:
  "exampleTryDial k (''ip2'', 80) = Inr ''connection to ip2''
   \<and> snd (getTCPAddrs exampleAtoi exampleLookupIP 0 0 freshDialer ''example.com:80'')
       = Inr ([(''ip0'', 80), (''ip1'', 80), (''ip2'', 80)], 1)
   \<and> snd (newDial exampleAtoi exampleLookupIP 0 0 exampleTryDial freshDialer ''example.com:80'')
       = (None, Some (OtherError ''connection refused''))"
  by (simp add: newDial_def getTCPAddrs_example dialLoop_example) (simp add: exampleTryDial_def)

text \<open>
  C9. Let the map point the address to an entry that is not pending and older than
  \<^verbatim>\<open>DefaultDNSCacheDuration\<close>. The first locked section marks that entry pending and
  sends the caller to resolve. When the resolution fails, \<open>getTCPAddrs\<close> returns the
  error, the map is as it was, so it still points the address to the old entry, and
  the pending flag of that entry is cleared. When the resolution succeeds, the map points
  the address to a newly allocated entry that holds the resolved addresses, the time of
  the resolution and the index 1 that is returned; every other address keeps its
  entry.
\<close>

theorem getTCPAddrs_refresh:
  assumes "tcpAddrsMap d addr = Some p" "p < length (entryStore d)"
    and "\<not> pending (entryStore d ! p)"
    and "now - resolveTime (entryStore d ! p) > DefaultDNSCacheDuration"
  shows "getTCPAddrs_lookup now d addr =
           (d\<lparr>entryStore := (entryStore d)[p := (entryStore d ! p)\<lparr>pending := True\<rparr>]\<rparr>, None)
    \<and> getTCPAddrs Atoi LookupIP now now' d addr =
       (case resolveTCPAddrs Atoi LookupIP addr of
          Inl err \<Rightarrow>
            (\<lparr>entryStore = (entryStore d)[p := (entryStore d ! p)\<lparr>pending := False\<rparr>],
              tcpAddrsMap = tcpAddrsMap d\<rparr>,
             Inl err)
        | Inr addrs' \<Rightarrow>
            (\<lparr>entryStore = (entryStore d)[p := (entryStore d ! p)\<lparr>pending := True\<rparr>]
                            @ [\<lparr>addrs = addrs', addrsIdx = 1, resolveTime = now',
                                pending = False\<rparr>],
              tcpAddrsMap = (tcpAddrsMap d)(addr \<mapsto> length (entryStore d))\<rparr>,
             Inr (addrs', 1)))"
proof -
  let ?e = "entryStore d ! p"
  let ?d1 = "d\<lparr>entryStore := (entryStore d)[p := ?e\<lparr>pending := True\<rparr>]\<rparr>"
  have lookup: "getTCPAddrs_lookup now d addr = (?d1, None)"
    using assms by (simp add: getTCPAddrs_lookup_def Let_def)
  have failed: "getTCPAddrs_failed ?d1 addr =
      \<lparr>entryStore = (entryStore d)[p := ?e\<lparr>pending := False\<rparr>], tcpAddrsMap = tcpAddrsMap d\<rparr>"
    using assms(1,2) by (cases d) (simp add: getTCPAddrs_failed_def Let_def)
  have stored: "addAddrsIdx (getTCPAddrs_store
        (d\<lparr>entryStore := (entryStore d)[p := ?e\<lparr>pending := True\<rparr>]
              @ [\<lparr>addrs = a, addrsIdx = 0, resolveTime = now', pending = False\<rparr>]\<rparr>)
        addr (length (entryStore d))) (length (entryStore d)) =
      (\<lparr>entryStore = (entryStore d)[p := ?e\<lparr>pending := True\<rparr>]
                       @ [\<lparr>addrs = a, addrsIdx = 1, resolveTime = now', pending = False\<rparr>],
        tcpAddrsMap = (tcpAddrsMap d)(addr \<mapsto> length (entryStore d))\<rparr>, 1)" for a
    by (cases d) (simp add: getTCPAddrs_store_def addAddrsIdx_def Let_def
          nth_append list_update_append)
  show ?thesis
    unfolding lookup getTCPAddrs_def
    by (simp add: failed stored newEntry_def nth_append split: sum.splits)
qed

text \<open>Witness for C9: the stale entry of \<open>staleDialer\<close>, once with a failing and once with
  a successful resolution. After the failure the map points to the entry 0 as before;
  after the success it points to the new entry 1.\<close>

theorem getTCPAddrs_refresh_witness:
  "tcpAddrsMap staleDialer ''example.com:80'' = Some 0
   \<and> 0 < length (entryStore staleDialer)
   \<and> \<not> pending (entryStore staleDialer ! 0)
   \<and> 61000000000 - resolveTime (entryStore staleDialer ! 0) > DefaultDNSCacheDuration
   \<and> getTCPAddrs exampleAtoi failingLookupIP 61000000000 61000000001
        staleDialer ''example.com:80''
      = (\<lparr>entryStore = [staleEntry], tcpAddrsMap = [''example.com:80'' \<mapsto> 0]\<rparr>,
         Inl (OtherError ''no such host''))
   \<and> getTCPAddrs exampleAtoi exampleLookupIP 61000000000 61000000001
        staleDialer ''example.com:80''
      = (\<lparr>entryStore =
            [staleEntry\<lparr>pending := True\<rparr>,
             \<lparr>addrs = [(''ip0'', 80), (''ip1'', 80), (''ip2'', 80)], addrsIdx = 1,
              resolveTime = 61000000001, pending = False\<rparr>],
          tcpAddrsMap = [''example.com:80'' \<mapsto> 1]\<rparr>,
         Inr ([(''ip0'', 80), (''ip1'', 80), (''ip2'', 80)], 1))"
proof -
  have r: "resolveTCPAddrs exampleAtoi failingLookupIP ''example.com:80''
      = Inl (OtherError ''no such host'')"
    by (simp add: resolveTCPAddrs_def SplitHostPort_def LastIndexByte_def IndexByte_def
        exampleAtoi_def failingLookupIP_def Let_def)
  have a: "tcpAddrsMap staleDialer ''example.com:80'' = Some 0"
    by (simp add: staleDialer_def)
  have l: "0 < length (entryStore staleDialer)" by (simp add: staleDialer_def)
  have b: "\<not> pending (entryStore staleDialer ! 0)"
    by (simp add: staleDialer_def staleEntry_def)
  have c: "61000000000 - resolveTime (entryStore staleDialer ! 0) > DefaultDNSCacheDuration"
    by (simp add: staleDialer_def staleEntry_def DefaultDNSCacheDuration_def)
  have s: "staleEntry\<lparr>pending := False\<rparr> = staleEntry" by (simp add: staleEntry_def)
  show ?thesis
    using getTCPAddrs_refresh [OF a l b c, of exampleAtoi failingLookupIP 61000000001]
      getTCPAddrs_refresh [OF a l b c, of exampleAtoi exampleLookupIP 61000000001]
    by (simp add: r resolve_example a l b c s) (simp add: staleDialer_def s)
qed

section \<open>Changing the host and the path of a parsed URI\<close>







lemma Parse_flags [simp]:
  "isConnect (Parse ParseIP u c raw) = c"
  "pathWithQueryFragmentParsed (Parse ParseIP u c raw) = False"
  "pathWithQueryFragment (Parse ParseIP u c raw) = []"
  by (cases "raw = []"; simp add: Parse_closed Parse_empty Let_def)+






lemma PathWithQueryFragment_hostAt:
  assumes "hostAt u pre x r"
  shows "PathWithQueryFragment u =
     (if r = [] then path u else r,
      u\<lparr>pathWithQueryFragment := (if r = [] then path u else r),
        pathWithQueryFragmentParsed := True\<rparr>)"
  using assms by (cases u) (auto simp: hostAt_def PathWithQueryFragment_def Let_def)


























text \<open>A new path that is empty or does not start with a slash is given one, and on a
  CONNECT URI the path with query and fragment stays empty whatever is asked for.\<close>

lemma ChangePathWithFragment_noslash:
  assumes "hostAt u pre x r" "p \<noteq> (if r = [] then path u else r)" "p = [] \<or> hd p \<noteq> CHR ''/''"
  shows "ChangePathWithFragment ParseIP u p =
     Parse ParseIP (u\<lparr>pathWithQueryFragment := (if r = [] then path u else r),
                       pathWithQueryFragmentParsed := True\<rparr>) False (pre @ x @ CHR ''/'' # p)"
proof -
  have c: "length p = 0 \<or> (length p > 0 \<and> p ! 0 \<noteq> CHR ''/'')"
    using assms(3) by (cases p) auto
  show ?thesis
    using assms(1,2) c
    unfolding ChangePathWithFragment_def PathWithQueryFragment_hostAt [OF assms(1)]
    by (auto simp: hostAt_def Let_def)
qed

lemma connect_path_empty:
  "fst (PathWithQueryFragment (ChangePathWithFragment ParseIP
          (ChangeHost ParseIP (Parse ParseIP u True raw) h) p)) = []"
proof -
  have "isConnect (ChangeHost ParseIP (Parse ParseIP u True raw) h)
      \<and> \<not> pathWithQueryFragmentParsed (ChangeHost ParseIP (Parse ParseIP u True raw) h)"
    by (simp add: ChangeHost_def Let_def)
  then show ?thesis
    by (simp add: ChangePathWithFragment_def PathWithQueryFragment_def)
qed







section \<open>Claims about ChangeHost and ChangePathWithFragment\<close>

text \<open>
  Two ways in which \<open>ChangeHost\<close> loses a host with port. On the origin form
  \<^verbatim>\<open>/index.html\<close> the host \<^verbatim>\<open>localhost:8080\<close> is put first in the rebuilt request URI,
  where \<open>getSchemeIndex\<close> reads \<^verbatim>\<open>localhost\<close> as the scheme and leaves the port as the
  host. On \<^verbatim>\<open>http://t/x\<close> the first occurrence of the host \<^verbatim>\<open>t\<close> is inside the scheme,
  and \<^verbatim>\<open>bytes.Replace\<close> puts the new host there.
\<close>

lemma ChangeHost_scheme_slip:
  "full (ChangeHost ParseIP_none (Parse ParseIP_none zeroURI False ''/index.html'')
           ''localhost:8080'') = ''localhost:8080/index.html''
   \<and> scheme (ChangeHost ParseIP_none (Parse ParseIP_none zeroURI False ''/index.html'')
           ''localhost:8080'') = ''localhost''
   \<and> host (ChangeHost ParseIP_none (Parse ParseIP_none zeroURI False ''/index.html'')
           ''localhost:8080'') = ''8080''
   \<and> hostWithPort (hostInfo
         (ChangeHost ParseIP_none (Parse ParseIP_none zeroURI False ''/index.html'')
            ''localhost:8080'')) = ''8080:80''"
  by code_simp

lemma ChangeHost_index_slip:
  "host (Parse ParseIP_none zeroURI False ''http://t/x'') = ''t''
   \<and> Index ''http://t/x'' ''t'' = 1
   \<and> full (ChangeHost ParseIP_none (Parse ParseIP_none zeroURI False ''http://t/x'') ''a.b:1'')
       = ''ha.b:1tp://t/x''
   \<and> hostWithPort (hostInfo
         (ChangeHost ParseIP_none (Parse ParseIP_none zeroURI False ''http://t/x'') ''a.b:1''))
       = []"
  by code_simp




end
